theory Spec2Isabelle
  imports Main "HOL-Library.Word"
begin

section \<open>The boundaries of \<^verbatim>\<open>kz_global.cpp\<close>\<close>

text \<open>
  \<^verbatim>\<open>src/kz/global/kz_global.cpp\<close> is the client of the remote tracking API: a heartbeat
  and an authentication task that keep the static service state up to date, and the
  operations \<^verbatim>\<open>FetchPlayer\<close>, \<^verbatim>\<open>RegisterPlayer\<close>, \<^verbatim>\<open>UpdatePlayer\<close> and \<^verbatim>\<open>FetchMap\<close>.
  The HTTP transport, the timer scheduler, the JSON codec and the host's player objects
  are used through their interfaces only. Everything the code does to them is recorded
  as an event of a trace, in program order.
\<close>

subsection \<open>HTTP requests and responses (\<^verbatim>\<open>utils/http.h\<close>)\<close>

datatype Method = GET | POST | PATCH

record Request =
  request_method :: Method
  url :: string
  headers :: "(string \<times> string) list"
  body :: "string option"

text \<open>\<^verbatim>\<open>HTTP::Request request(method, url)\<close>, \<^verbatim>\<open>request.SetHeader\<close>, \<^verbatim>\<open>request.SetBody\<close>.\<close>

definition HTTP_Request :: "Method \<Rightarrow> string \<Rightarrow> Request" where
  "HTTP_Request m u = \<lparr>request_method = m, url = u, headers = [], body = None\<rparr>"

definition SetHeader :: "string \<Rightarrow> string \<Rightarrow> Request \<Rightarrow> Request" where
  "SetHeader k v r = r\<lparr>headers := headers r @ [(k, v)]\<rparr>"

definition SetBody :: "string \<Rightarrow> Request \<Rightarrow> Request" where
  "SetBody b r = r\<lparr>body := Some b\<rparr>"

text \<open>
  \<^verbatim>\<open>HTTP::Response\<close>: \<^verbatim>\<open>response.status\<close> is \<open>0\<close> when no response was obtained, and
  \<^verbatim>\<open>response.Body()\<close> is an optional string.
\<close>

record Response =
  status :: int
  Body :: "string option"

text \<open>\<^verbatim>\<open>response.Body().value_or("")\<close>.\<close>

definition Body_value_or_empty :: "Response \<Rightarrow> string" where
  "Body_value_or_empty response = (case Body response of None \<Rightarrow> [] | Some b \<Rightarrow> b)"

subsection \<open>Errors (\<^verbatim>\<open>error.h\<close>)\<close>

text \<open>
  Modelled from the spec: \<^verbatim>\<open>error.h\<close>, which declares \<^verbatim>\<open>KZ::API::Error\<close>, is not among the
  sources. The code builds an error from a status code and a text, either
  \<^verbatim>\<open>{503, "unreachable"}\<close> or \<^verbatim>\<open>Error(response.status, response.Body().value_or(""))\<close>.
  An error value is identified with these two constructor arguments: its \<^verbatim>\<open>status\<close>
  field is the first one; \<^verbatim>\<open>message\<close> and \<^verbatim>\<open>details\<close> are what the constructor derives
  from the second one (for the two local errors the text is the message).
\<close>

datatype Error = Error (error_status: int) (error_text: string)

text \<open>
  \<^verbatim>\<open>std::optional::value()\<close> on an empty optional throws, and so does \<^verbatim>\<open>json::parse\<close> on
  a text that is not JSON.
\<close>

datatype exn = bad_optional_access | parse_error

datatype 'a result = Returned 'a | Threw exn

subsection \<open>Host players (\<^verbatim>\<open>players.h\<close>, \<^verbatim>\<open>kz/kz.h\<close>)\<close>

text \<open>
  A \<^verbatim>\<open>KZPlayer *\<close> is used through \<^verbatim>\<open>GetName()\<close>, \<^verbatim>\<open>GetSteamId64()\<close>, \<^verbatim>\<open>GetIpAddress()\<close>
  and the field \<^verbatim>\<open>session\<close>. The pointer is modelled by the values these give; they are
  taken to be the same when the request is built and when its response arrives.
\<close>

record 's KZPlayer =
  GetName :: string
  GetSteamId64 :: "64 word"
  GetIpAddress :: string
  session :: 's

subsection \<open>Callbacks, pending requests, events\<close>

text \<open>
  A callback is either one the caller supplied (an opaque handle \<open>'c\<close>) or one of the two
  lambdas that \<^verbatim>\<open>RegisterPlayer\<close> builds at lines 289 and 300, which capture the player.
\<close>

datatype ('c, 's) player_cb = PlayerCallback 'c | RegisterOnSuccess "'s KZPlayer"

datatype ('c, 's) error_cb = ErrorCallback 'c | RegisterOnError "'s KZPlayer"

text \<open>
  The lambda handed to \<^verbatim>\<open>request.Send\<close>, with what it captures. The transport calls it
  later with the response.
\<close>

datatype ('c, 's) handler =
    HeartbeatResponse
  | AuthResponse
  | FetchPlayerResponse "('c, 's) player_cb" "('c, 's) error_cb"
  | RegisterPlayerResponse "'s KZPlayer" "('c, 's) error_cb"
  | UpdatePlayerResponse "'s KZPlayer" 'c
  | FetchMapResponse 'c "('c, 's) error_cb"

datatype timer = HeartbeatTimer | AuthTimer

text \<open>
  What the code does to the outside: \<^verbatim>\<open>META_CONPRINTF\<close> (the format string, without its
  final newline and its arguments), \<^verbatim>\<open>request.Send\<close>, \<^verbatim>\<open>StartTimer\<close>, the call of a
  callback with its argument, \<^verbatim>\<open>player->languageService->PrintChat\<close> and
  \<^verbatim>\<open>PrintError\<close>, and the assignment \<^verbatim>\<open>player->info = info.value()\<close>.
\<close>

datatype ('c, 's, 'p, 'm) event =
    Log string
  | Send Request "('c, 's) handler"
  | StartTimer timer
  | OnSuccessPlayer "('c, 's) player_cb" "'p option"
  | OnSuccessMap 'c "'m option"
  | OnError "('c, 's) error_cb" Error
  | OnResult 'c "Error option"
  | PrintChat "'s KZPlayer" string "string list"
  | PrintError "'s KZPlayer" Error
  | SetInfo "'s KZPlayer" 'p

text \<open>The requests handed to the transport, and the callbacks called, in a trace.\<close>

fun sent_requests :: "('c, 's, 'p, 'm) event list \<Rightarrow> Request list" where
  "sent_requests [] = []"
| "sent_requests (Send r h # es) = r # sent_requests es"
| "sent_requests (e # es) = sent_requests es"

fun is_callback :: "('c, 's, 'p, 'm) event \<Rightarrow> bool" where
  "is_callback (OnSuccessPlayer c a) = True"
| "is_callback (OnSuccessMap c a) = True"
| "is_callback (OnError c a) = True"
| "is_callback (OnResult c a) = True"
| "is_callback e = False"

definition callbacks :: "('c, 's, 'p, 'm) event list \<Rightarrow> ('c, 's, 'p, 'm) event list" where
  "callbacks es = filter is_callback es"

fun is_log :: "('c, 's, 'p, 'm) event \<Rightarrow> bool" where
  "is_log (Log s) = True"
| "is_log e = False"

subsection \<open>The codec and the constants of other files\<close>

text \<open>
  Modelled from the spec: \<^verbatim>\<open>utils/json.h\<close>, the (de)serializers of \<^verbatim>\<open>KZ::API::Player\<close>,
  \<^verbatim>\<open>Map\<close>, \<^verbatim>\<open>NewPlayer\<close> and \<^verbatim>\<open>PlayerUpdate\<close>, and \<^verbatim>\<open>version.h\<close> are not among the sources.
  They are parameters of the model:
  \<^item> \<open>json_parse\<close> is \<^verbatim>\<open>json::parse\<close>, the codec's decoding of a text into a structured
    value or a failure: \<open>None\<close> is the failure. The code calls it at lines 140, 204 and
    400 with no guard around the call and no test of what it gives, so a failure there
    is the exception of \<^verbatim>\<open>json::parse\<close>, which leaves the lambda;
  \<^item> \<open>Player_Deserialize\<close> and \<open>Map_Deserialize\<close> give \<open>Inl reason\<close> where the C++
    returns a parse error and \<open>Inr\<close> the decoded resource otherwise;
  \<^item> \<open>Player_name\<close> is the field \<^verbatim>\<open>name\<close> of a decoded player;
  \<^item> \<open>access_key\<close> is \<open>None\<close> where \<^verbatim>\<open>!responseBody.is_object() ||
    !responseBody.contains("access_key")\<close>, and the field's value otherwise;
  \<^item> \<open>auth_payload key\<close> is the dump of the object with \<^verbatim>\<open>refresh_key\<close> and
    \<^verbatim>\<open>plugin_version\<close>;
  \<^item> \<open>NewPlayer_dump\<close> and \<open>PlayerUpdate_dump\<close> are \<^verbatim>\<open>Serialize().dump()\<close> of the two
    write-side records, the latter with its \<^verbatim>\<open>json::object()\<close> field;
  \<^item> \<open>details_is_null\<close> is \<^verbatim>\<open>error.details.is_null()\<close>.
\<close>

record ('j, 'p, 'm, 's) codec =
  json_parse :: "string \<Rightarrow> 'j option"
  Player_Deserialize :: "'j \<Rightarrow> string + 'p"
  Map_Deserialize :: "'j \<Rightarrow> string + 'm"
  Player_name :: "'p \<Rightarrow> string"
  access_key :: "'j \<Rightarrow> string option"
  auth_payload :: "string \<Rightarrow> string"
  NewPlayer_dump :: "string \<Rightarrow> 64 word \<Rightarrow> string \<Rightarrow> string"
  PlayerUpdate_dump :: "string \<Rightarrow> string \<Rightarrow> 's \<Rightarrow> string"
  details_is_null :: "Error \<Rightarrow> bool"

text \<open>
  Modelled from the spec: \<^verbatim>\<open>KZOptionService::GetOptionStr(name, default)\<close> of
  \<^verbatim>\<open>kz/option/kz_option.h\<close> reads a string option and gives the default where the option
  is not set.
\<close>

definition GetOptionStr :: "(string \<rightharpoonup> string) \<Rightarrow> string \<Rightarrow> string \<Rightarrow> string" where
  "GetOptionStr opts name dflt = (case opts name of None \<Rightarrow> dflt | Some v \<Rightarrow> v)"

text \<open>\<^verbatim>\<open>%llu\<close> and \<^verbatim>\<open>%d\<close> of a non-negative number: its decimal digits.\<close>

definition digit :: "nat \<Rightarrow> char" where
  "digit d = ''0123456789'' ! d"

function decimal :: "nat \<Rightarrow> string" where
  "decimal n = (if n < 10 then [digit n] else decimal (n div 10) @ [digit (n mod 10)])"
  by pat_completeness auto
termination
  by (relation "measure id") auto

declare decimal.simps [simp del]

section \<open>The service state\<close>

text \<open>The static members of \<^verbatim>\<open>KZGlobalService\<close>, lines 16 to 22.\<close>

record 'm ServiceState =
  currentMap :: "'m option"
  apiURL :: string
  isHealthy :: bool
  authTimerInitialized :: bool
  apiKey :: "string option"
  authPayload :: "string option"
  apiToken :: "string option"

definition initial_state :: "'m ServiceState" where
  "initial_state = \<lparr>currentMap = None, apiURL = ''https://api.cs2kz.org'',
     isHealthy = False, authTimerInitialized = False, apiKey = None,
     authPayload = None, apiToken = None\<rparr>"

text \<open>
  Modelled from the spec: \<^verbatim>\<open>IsHealthy()\<close> and \<^verbatim>\<open>IsAuthenticated()\<close> are declared in
  \<^verbatim>\<open>kz_global.h\<close>, which is not among the sources. The gate consults the health flag,
  and for authentication whether an access token is present.
\<close>

definition IsHealthy :: "'m ServiceState \<Rightarrow> bool" where
  "IsHealthy st = isHealthy st"

definition IsAuthenticated :: "'m ServiceState \<Rightarrow> bool" where
  "IsAuthenticated st = (apiToken st \<noteq> None)"

section \<open>Initialisation and the two periodic tasks\<close>

type_synonym ('c, 's, 'p, 'm) trace = "('c, 's, 'p, 'm) event list"

text \<open>\<^verbatim>\<open>KZGlobalService::Init\<close>, lines 26 to 46. \<^verbatim>\<open>apiKey[0] == '\0'\<close> is the empty string.\<close>

definition Init ::
  "(string \<rightharpoonup> string) \<Rightarrow> 'm ServiceState \<Rightarrow> 'm ServiceState \<times> ('c, 's, 'p, 'm) trace" where
  "Init opts st =
     (let st1 = st\<lparr>apiURL := GetOptionStr opts ''apiURL'' ''https://api.cs2kz.org''\<rparr>;
          key = GetOptionStr opts ''apiKey'' []
      in if key = []
         then (st1,
               [Log ''[KZ::Global] Initializing API connection...'',
                Log ''[KZ::Global] Registered API URL: `%s`'',
                Log ''[KZ::Global] No API key found! Will not attempt to authenticate.'',
                StartTimer HeartbeatTimer])
         else (st1\<lparr>apiKey := Some key\<rparr>,
               [Log ''[KZ::Global] Initializing API connection...'',
                Log ''[KZ::Global] Registered API URL: `%s`'',
                Log ''[KZ::Global] Loaded API key from config. Starting heartbeat...'',
                StartTimer HeartbeatTimer]))"

text \<open>
  What a timer function returns: the constants \<^verbatim>\<open>heartbeatInterval\<close> and \<^verbatim>\<open>authInterval\<close>
  of \<^verbatim>\<open>kz_global.h\<close>, or \<^verbatim>\<open>-1.0\<close>.
\<close>

datatype delay = heartbeatInterval | authInterval | MinusOne

text \<open>\<^verbatim>\<open>KZGlobalService::Heartbeat\<close>, lines 48 to 96: the request, then its callback.\<close>

definition Heartbeat :: "'m ServiceState \<Rightarrow> delay \<times> ('c, 's, 'p, 'm) trace" where
  "Heartbeat st = (heartbeatInterval, [Send (HTTP_Request GET (apiURL st)) HeartbeatResponse])"

definition Heartbeat_callback ::
  "'m ServiceState \<Rightarrow> Response \<Rightarrow> 'm ServiceState \<times> ('c, 's, 'p, 'm) trace" where
  "Heartbeat_callback st response =
     (if status response = 0
      then (st\<lparr>isHealthy := False\<rparr>, [Log ''[KZ::Global] API is unreachable.''])
      else if status response = 200
      then (case Body response of
              None \<Rightarrow>
                (st\<lparr>isHealthy := False\<rparr>,
                 [Log ''[KZ::Global] API healthcheck did not contain a body''])
            | Some b \<Rightarrow>
                (if \<not> authTimerInitialized st
                 then (st\<lparr>isHealthy := True, authTimerInitialized := True\<rparr>,
                       [Log ''[KZ::Global] API is healthy %s'',
                        Log ''[KZ::Global] Initializing auth flow...'',
                        StartTimer AuthTimer])
                 else (st\<lparr>isHealthy := True\<rparr>, [Log ''[KZ::Global] API is healthy %s''])))
      else (st\<lparr>isHealthy := False\<rparr>,
            [Log ''[KZ::Global] API healthcheck failed with status %d: `%s`'']))"

text \<open>
  \<^verbatim>\<open>KZGlobalService::Auth\<close>, lines 98 to 171. The payload is built when \<^verbatim>\<open>authPayload\<close> is
  empty and kept otherwise, so after line 113 \<^verbatim>\<open>authPayload\<close> holds \<open>payload\<close> in both cases
  and \<^verbatim>\<open>authPayload.value()\<close> at line 119 reads it.
\<close>

definition Auth ::
  "('j, 'p, 'm, 's) codec \<Rightarrow> 'm ServiceState \<Rightarrow>
     'm ServiceState \<times> delay \<times> ('c, 's, 'p, 'm) trace" where
  "Auth cd st =
     (case apiKey st of
        None \<Rightarrow> (st, MinusOne, [Log ''[KZ::Global] No API key found, can't authenticate.''])
      | Some key \<Rightarrow>
          (let payload = (case authPayload st of None \<Rightarrow> auth_payload cd key | Some p \<Rightarrow> p);
               requestURL = apiURL st @ ''/servers/key''
           in (st\<lparr>authPayload := Some payload\<rparr>, authInterval,
               [Send (SetBody payload (HTTP_Request POST requestURL)) AuthResponse])))"

text \<open>
  The lambda of \<^verbatim>\<open>Auth\<close> gives the state it leaves, whether it returns or throws, and
  its events.
\<close>

definition Auth_callback ::
  "('j, 'p, 'm, 's) codec \<Rightarrow> 'm ServiceState \<Rightarrow> Response \<Rightarrow>
     'm ServiceState \<times> unit result \<times> ('c, 's, 'p, 'm) trace" where
  "Auth_callback cd st response =
     (if status response = 0
      then (st, Returned (), [Log ''[KZ::Global] Failed to request access token.''])
      else if status response = 201
      then (case Body response of
              None \<Rightarrow> (st, Returned (), [Log ''[KZ::Global] Acces token response has no body''])
            | Some rawBody \<Rightarrow>
                (case json_parse cd rawBody of
                   None \<Rightarrow> (st, Threw parse_error, [])
                 | Some responseBody \<Rightarrow>
                     (case access_key cd responseBody of
                        None \<Rightarrow>
                          (st, Returned (),
                           [Log ''[KZ::Global] Access token response has unexpected shape: `%s`''])
                      | Some k \<Rightarrow>
                          (st\<lparr>apiToken := Some k\<rparr>, Returned (),
                           [Log ''[KZ::Global] Fetched access key `%s`'']))))
      else (let error = Error (status response) (Body_value_or_empty response)
            in (st, Returned (),
                Log ''[KZ::Global] Fetching access key failed with status %d: %s'' #
                (if \<not> details_is_null cd error then [Log ''     Details: `%s`''] else []))))"

section \<open>Calling a callback\<close>

text \<open>
  A caller's callback is opaque: calling it is an event. The two lambdas of
  \<^verbatim>\<open>RegisterPlayer\<close> (lines 289 to 302) run their bodies.
\<close>

fun call_onSuccess ::
  "('j, 'p, 'm, 's) codec \<Rightarrow> ('c, 's) player_cb \<Rightarrow> 'p option \<Rightarrow> ('c, 's, 'p, 'm) trace" where
  "call_onSuccess cd (PlayerCallback c) info = [OnSuccessPlayer (PlayerCallback c) info]"
| "call_onSuccess cd (RegisterOnSuccess player) None =
     [OnSuccessPlayer (RegisterOnSuccess player) None,
      PrintChat player ''Player not found after registration'' []]"
| "call_onSuccess cd (RegisterOnSuccess player) (Some info) =
     [OnSuccessPlayer (RegisterOnSuccess player) (Some info),
      PrintChat player ''Display Hello'' [Player_name cd info],
      SetInfo player info]"

fun call_onError :: "('c, 's) error_cb \<Rightarrow> Error \<Rightarrow> ('c, 's, 'p, 'm) trace" where
  "call_onError (ErrorCallback c) error = [OnError (ErrorCallback c) error]"
| "call_onError (RegisterOnError player) error =
     [OnError (RegisterOnError player) error, PrintError player error]"

section \<open>The resource operations\<close>

text \<open>
  Each operation is two functions: the call, which gives what the C++ returns (or the
  exception it throws) and the events up to there, and the lambda handed to
  \<^verbatim>\<open>request.Send\<close>, which gives the events of one response (and, for the two lambdas
  that parse a body, whether it returns or throws). No operation writes the service
  state.
\<close>

subsection \<open>\<^verbatim>\<open>FetchPlayerImpl\<close> and \<^verbatim>\<open>FetchPlayer\<close>, lines 173 to 249\<close>

definition FetchPlayerImpl ::
  "'m ServiceState \<Rightarrow> string \<Rightarrow> ('c, 's) player_cb \<Rightarrow> ('c, 's) error_cb \<Rightarrow>
     bool \<times> ('c, 's, 'p, 'm) trace" where
  "FetchPlayerImpl st u onSuccess onError =
     (if \<not> IsHealthy st
      then (False,
            Log ''[KZ::Global] Cannot fetch player (API is currently not healthy).'' #
            call_onError onError (Error 503 ''unreachable''))
      else (True, [Send (HTTP_Request GET u) (FetchPlayerResponse onSuccess onError)]))"

definition FetchPlayerImpl_callback ::
  "('j, 'p, 'm, 's) codec \<Rightarrow> ('c, 's) player_cb \<Rightarrow> ('c, 's) error_cb \<Rightarrow> Response \<Rightarrow>
     unit result \<times> ('c, 's, 'p, 'm) trace" where
  "FetchPlayerImpl_callback cd onSuccess onError response =
     (if status response = 0
      then (Returned (), [Log ''[KZ::Global] Failed to make HTTP request.''])
      else if status response = 200
      then (case Body response of
              None \<Rightarrow> (Returned (), [Log ''[KZ::Global] Player response has no body''])
            | Some b \<Rightarrow>
                (case json_parse cd b of
                   None \<Rightarrow> (Threw parse_error, [])
                 | Some json \<Rightarrow>
                     (case Player_Deserialize cd json of
                        Inl reason \<Rightarrow>
                          (Returned (), [Log ''[KZ::Global] Failed to parse player: %s''])
                      | Inr player \<Rightarrow> (Returned (), call_onSuccess cd onSuccess (Some player)))))
      else if status response = 404
      then (Returned (), call_onSuccess cd onSuccess None)
      else (Returned (),
            call_onError onError (Error (status response) (Body_value_or_empty response))))"

definition FetchPlayer_name ::
  "'m ServiceState \<Rightarrow> string \<Rightarrow> ('c, 's) player_cb \<Rightarrow> ('c, 's) error_cb \<Rightarrow>
     bool \<times> ('c, 's, 'p, 'm) trace" where
  "FetchPlayer_name st name onSuccess onError =
     FetchPlayerImpl st (apiURL st @ ''/players/'' @ name) onSuccess onError"

definition FetchPlayer_steamID ::
  "'m ServiceState \<Rightarrow> 64 word \<Rightarrow> ('c, 's) player_cb \<Rightarrow> ('c, 's) error_cb \<Rightarrow>
     bool \<times> ('c, 's, 'p, 'm) trace" where
  "FetchPlayer_steamID st steamID onSuccess onError =
     FetchPlayerImpl st (apiURL st @ ''/players/'' @ decimal (unat steamID)) onSuccess onError"

subsection \<open>\<^verbatim>\<open>RegisterPlayer\<close>, lines 251 to 319\<close>

definition RegisterPlayer ::
  "('j, 'p, 'm, 's) codec \<Rightarrow> 'm ServiceState \<Rightarrow> 's KZPlayer \<Rightarrow> ('c, 's) error_cb \<Rightarrow>
     bool result \<times> ('c, 's, 'p, 'm) trace" where
  "RegisterPlayer cd st player onError =
     (if \<not> IsHealthy st
      then (Returned False,
            Log ''[KZ::Global] Cannot register player (API is currently not healthy).'' #
            call_onError onError (Error 503 ''unreachable''))
      else if \<not> IsAuthenticated st
      then (Returned False,
            Log ''[KZ::Global] Cannot register player (not authenticated with API).'' #
            call_onError onError (Error 401 ''server is not global''))
      else (case apiToken st of
              None \<Rightarrow> (Threw bad_optional_access, [])
            | Some token \<Rightarrow>
                (let requestBody =
                       NewPlayer_dump cd (GetName player) (GetSteamId64 player) (GetIpAddress player);
                     request =
                       SetBody requestBody
                         (SetHeader ''Authorization'' (''Bearer '' @ token)
                            (HTTP_Request POST (apiURL st @ ''/players'')))
                 in (Returned True, [Send request (RegisterPlayerResponse player onError)]))))"

text \<open>
  The callback reads the service state when the response arrives: on \<open>201\<close> it calls
  \<^verbatim>\<open>KZGlobalService::FetchPlayer(player->GetSteamId64(), onSuccess, onError)\<close> with the
  two lambdas, and drops what that returns.
\<close>

definition RegisterPlayer_callback ::
  "'m ServiceState \<Rightarrow> 's KZPlayer \<Rightarrow> ('c, 's) error_cb \<Rightarrow> Response \<Rightarrow>
     ('c, 's, 'p, 'm) trace" where
  "RegisterPlayer_callback st player onError response =
     (if status response = 0
      then [Log ''[KZ::Global] Failed to make HTTP request.'']
      else if status response = 201
      then snd (FetchPlayer_steamID st (GetSteamId64 player)
                  (RegisterOnSuccess player) (RegisterOnError player))
      else call_onError onError (Error (status response) (Body_value_or_empty response)))"

subsection \<open>\<^verbatim>\<open>UpdatePlayer\<close>, lines 321 to 367\<close>

text \<open>
  There is no check of \<^verbatim>\<open>IsAuthenticated()\<close> here: line 338 reads \<^verbatim>\<open>apiToken.value()\<close>
  whatever \<^verbatim>\<open>apiToken\<close> holds, before the request is sent and before anything is printed.
\<close>

definition UpdatePlayer ::
  "('j, 'p, 'm, 's) codec \<Rightarrow> 'm ServiceState \<Rightarrow> 's KZPlayer \<Rightarrow> 'c \<Rightarrow>
     bool result \<times> ('c, 's, 'p, 'm) trace" where
  "UpdatePlayer cd st player onError =
     (if \<not> IsHealthy st
      then (Returned False,
            [Log ''[KZ::Global] Cannot fetch map (API is currently not healthy).'',
             OnResult onError (Some (Error 503 ''unreachable''))])
      else (case apiToken st of
              None \<Rightarrow> (Threw bad_optional_access, [])
            | Some token \<Rightarrow>
                (let requestBody =
                       PlayerUpdate_dump cd (GetName player) (GetIpAddress player) (session player);
                     request =
                       SetBody requestBody
                         (SetHeader ''Authorization'' (''Bearer '' @ token)
                            (HTTP_Request PATCH
                               (apiURL st @ ''/players/'' @ decimal (unat (GetSteamId64 player)))))
                 in (Returned True,
                     [Log ''[KZ::Global] updating player at `%s` with `%s`'',
                      Send request (UpdatePlayerResponse player onError)]))))"

definition UpdatePlayer_callback :: "'c \<Rightarrow> Response \<Rightarrow> ('c, 's, 'p, 'm) trace" where
  "UpdatePlayer_callback onError response =
     (if status response = 0
      then [Log ''[KZ::Global] Failed to make HTTP request.'']
      else if status response = 204
      then [OnResult onError None]
      else [OnResult onError (Some (Error (status response) (Body_value_or_empty response)))])"

subsection \<open>\<^verbatim>\<open>FetchMapImpl\<close> and \<^verbatim>\<open>FetchMap\<close>, lines 369 to 445\<close>

definition FetchMapImpl ::
  "'m ServiceState \<Rightarrow> string \<Rightarrow> 'c \<Rightarrow> ('c, 's) error_cb \<Rightarrow> bool \<times> ('c, 's, 'p, 'm) trace" where
  "FetchMapImpl st u onSuccess onError =
     (if \<not> IsHealthy st
      then (False,
            Log ''[KZ::Global] Cannot fetch map (API is currently not healthy).'' #
            call_onError onError (Error 503 ''unreachable''))
      else (True, [Send (HTTP_Request GET u) (FetchMapResponse onSuccess onError)]))"

definition FetchMapImpl_callback ::
  "('j, 'p, 'm, 's) codec \<Rightarrow> 'c \<Rightarrow> ('c, 's) error_cb \<Rightarrow> Response \<Rightarrow>
     unit result \<times> ('c, 's, 'p, 'm) trace" where
  "FetchMapImpl_callback cd onSuccess onError response =
     (if status response = 0
      then (Returned (), [Log ''[KZ::Global] Failed to make HTTP request.''])
      else if status response = 200
      then (case Body response of
              None \<Rightarrow> (Returned (), [Log ''[KZ::Global] Map response has no body''])
            | Some b \<Rightarrow>
                (case json_parse cd b of
                   None \<Rightarrow> (Threw parse_error, [])
                 | Some json \<Rightarrow>
                     (case Map_Deserialize cd json of
                        Inl reason \<Rightarrow>
                          (Returned (), [Log ''[KZ::Global] Failed to deserialize map: %s''])
                      | Inr m \<Rightarrow> (Returned (), [OnSuccessMap onSuccess (Some m)]))))
      else if status response = 404
      then (Returned (), [OnSuccessMap onSuccess None])
      else (Returned (),
            call_onError onError (Error (status response) (Body_value_or_empty response))))"

definition FetchMap_name ::
  "'m ServiceState \<Rightarrow> string \<Rightarrow> 'c \<Rightarrow> ('c, 's) error_cb \<Rightarrow> bool \<times> ('c, 's, 'p, 'm) trace" where
  "FetchMap_name st name onSuccess onError =
     FetchMapImpl st (apiURL st @ ''/maps/'' @ name) onSuccess onError"

definition FetchMap_id ::
  "'m ServiceState \<Rightarrow> 16 word \<Rightarrow> 'c \<Rightarrow> ('c, 's) error_cb \<Rightarrow> bool \<times> ('c, 's, 'p, 'm) trace" where
  "FetchMap_id st i onSuccess onError =
     FetchMapImpl st (apiURL st @ ''/maps/'' @ decimal (unat i)) onSuccess onError"

section \<open>A process run\<close>

text \<open>
  The code runs on one thread, driven from outside: the scheduler runs a timer function,
  the transport delivers a response to the lambda of a request, the host calls an
  operation. A run is any sequence of these inputs (more than the scheduler and the
  transport really produce, so what holds of every run holds of the real ones).
  An exception of an operation goes to the host, one of a lambda to the transport; the
  state and the events up to the throw stay. Should the exception end the process, the
  run is the inputs up to there.
\<close>

datatype ('c, 's) operation =
    Call_FetchPlayer_name string "('c, 's) player_cb" "('c, 's) error_cb"
  | Call_FetchPlayer_steamID "64 word" "('c, 's) player_cb" "('c, 's) error_cb"
  | Call_RegisterPlayer "'s KZPlayer" "('c, 's) error_cb"
  | Call_UpdatePlayer "'s KZPlayer" 'c
  | Call_FetchMap_name string 'c "('c, 's) error_cb"
  | Call_FetchMap_id "16 word" 'c "('c, 's) error_cb"

datatype ('c, 's) input =
    Tick timer
  | Deliver "('c, 's) handler" Response
  | Call "('c, 's) operation"

fun call ::
  "('j, 'p, 'm, 's) codec \<Rightarrow> 'm ServiceState \<Rightarrow> ('c, 's) operation \<Rightarrow>
     bool result \<times> ('c, 's, 'p, 'm) trace" where
  "call cd st (Call_FetchPlayer_name name onSuccess onError) =
     (case FetchPlayer_name st name onSuccess onError of (b, es) \<Rightarrow> (Returned b, es))"
| "call cd st (Call_FetchPlayer_steamID steamID onSuccess onError) =
     (case FetchPlayer_steamID st steamID onSuccess onError of (b, es) \<Rightarrow> (Returned b, es))"
| "call cd st (Call_RegisterPlayer player onError) = RegisterPlayer cd st player onError"
| "call cd st (Call_UpdatePlayer player onError) = UpdatePlayer cd st player onError"
| "call cd st (Call_FetchMap_name name onSuccess onError) =
     (case FetchMap_name st name onSuccess onError of (b, es) \<Rightarrow> (Returned b, es))"
| "call cd st (Call_FetchMap_id i onSuccess onError) =
     (case FetchMap_id st i onSuccess onError of (b, es) \<Rightarrow> (Returned b, es))"

fun deliver ::
  "('j, 'p, 'm, 's) codec \<Rightarrow> 'm ServiceState \<Rightarrow> ('c, 's) handler \<Rightarrow> Response \<Rightarrow>
     'm ServiceState \<times> ('c, 's, 'p, 'm) trace" where
  "deliver cd st HeartbeatResponse response = Heartbeat_callback st response"
| "deliver cd st AuthResponse response =
     (case Auth_callback cd st response of (st', outcome, es) \<Rightarrow> (st', es))"
| "deliver cd st (FetchPlayerResponse onSuccess onError) response =
     (st, snd (FetchPlayerImpl_callback cd onSuccess onError response))"
| "deliver cd st (RegisterPlayerResponse player onError) response =
     (st, RegisterPlayer_callback st player onError response)"
| "deliver cd st (UpdatePlayerResponse player onError) response =
     (st, UpdatePlayer_callback onError response)"
| "deliver cd st (FetchMapResponse onSuccess onError) response =
     (st, snd (FetchMapImpl_callback cd onSuccess onError response))"

fun step ::
  "('j, 'p, 'm, 's) codec \<Rightarrow> 'm ServiceState \<Rightarrow> ('c, 's) input \<Rightarrow>
     'm ServiceState \<times> ('c, 's, 'p, 'm) trace" where
  "step cd st (Tick HeartbeatTimer) = (st, snd (Heartbeat st))"
| "step cd st (Tick AuthTimer) = (case Auth cd st of (st', d, es) \<Rightarrow> (st', es))"
| "step cd st (Deliver h response) = deliver cd st h response"
| "step cd st (Call operation) = (st, snd (call cd st operation))"

text \<open>The events of each input of a run, and the state after it.\<close>

fun run ::
  "('j, 'p, 'm, 's) codec \<Rightarrow> 'm ServiceState \<Rightarrow> ('c, 's) input list \<Rightarrow>
     (('c, 's) input \<times> ('c, 's, 'p, 'm) trace) list" where
  "run cd st [] = []"
| "run cd st (i # inputs) = (i, snd (step cd st i)) # run cd (fst (step cd st i)) inputs"

fun state_after ::
  "('j, 'p, 'm, 's) codec \<Rightarrow> 'm ServiceState \<Rightarrow> ('c, 's) input list \<Rightarrow> 'm ServiceState" where
  "state_after cd st [] = st"
| "state_after cd st (i # inputs) =
     state_after cd (fst (step cd st i :: 'm ServiceState \<times> ('c, 's, 'p, 'm) trace)) inputs"

text \<open>A process: \<^verbatim>\<open>Init\<close> on the static initial state, then a run.\<close>

definition process ::
  "('j, 'p, 'm, 's) codec \<Rightarrow> (string \<rightharpoonup> string) \<Rightarrow> ('c, 's) input list \<Rightarrow>
     (('c, 's) input \<times> ('c, 's, 'p, 'm) trace) list" where
  "process cd opts inputs =
     run cd (fst (Init opts initial_state :: 'm ServiceState \<times> ('c, 's, 'p, 'm) trace)) inputs"

definition process_state ::
  "('j, 'p, 'm, 's) codec \<Rightarrow> (string \<rightharpoonup> string) \<Rightarrow> ('c, 's) input list \<Rightarrow> 'm ServiceState" where
  "process_state cd opts inputs =
     state_after cd (fst (Init opts initial_state :: 'm ServiceState \<times> ('c, 's, 'p, 'm) trace)) inputs"

definition process_trace ::
  "('j, 'p, 'm, 's) codec \<Rightarrow> (string \<rightharpoonup> string) \<Rightarrow> ('c, 's) input list \<Rightarrow>
     ('c, 's, 'p, 'm) trace" where
  "process_trace cd opts inputs =
     snd (Init opts (initial_state :: 'm ServiceState)) @ concat (map snd (process cd opts inputs))"

text \<open>How many times a run starts the Auth timer.\<close>

fun auth_starts :: "('c, 's, 'p, 'm) trace \<Rightarrow> nat" where
  "auth_starts [] = 0"
| "auth_starts (StartTimer AuthTimer # es) = Suc (auth_starts es)"
| "auth_starts (e # es) = auth_starts es"

section \<open>What the specification says, in its own words\<close>

text \<open>
  A heartbeat result is healthy exactly for a \<open>200\<close> response with a body; a transport
  failure (status \<open>0\<close>), any other status and a \<open>200\<close> without a body are not.
\<close>

definition healthy_response :: "Response \<Rightarrow> bool" where
  "healthy_response response = (status response = 200 \<and> Body response \<noteq> None)"

text \<open>The input is a Heartbeat callback that observes a \<open>200\<close> response with a body.\<close>

fun healthy_heartbeat :: "('c, 's) input \<Rightarrow> bool" where
  "healthy_heartbeat (Deliver HeartbeatResponse response) = healthy_response response"
| "healthy_heartbeat i = False"

text \<open>The most recent heartbeat response among the inputs of a run, if there is one.\<close>

fun last_heartbeat :: "('c, 's) input list \<Rightarrow> Response option" where
  "last_heartbeat [] = None"
| "last_heartbeat (i # inputs) =
     (case last_heartbeat inputs of
        Some r \<Rightarrow> Some r
      | None \<Rightarrow> (case i of Deliver HeartbeatResponse r \<Rightarrow> Some r | _ \<Rightarrow> None))"

text \<open>
  The Fetch operations, and for every operation the event that is the call of its
  success callback with an absent value and the call of its error callback with an
  error. \<^verbatim>\<open>UpdatePlayer\<close> has one callback, which takes an optional error.
\<close>

fun is_fetch :: "('c, 's) operation \<Rightarrow> bool" where
  "is_fetch (Call_FetchPlayer_name name onSuccess onError) = True"
| "is_fetch (Call_FetchPlayer_steamID steamID onSuccess onError) = True"
| "is_fetch (Call_FetchMap_name name onSuccess onError) = True"
| "is_fetch (Call_FetchMap_id i onSuccess onError) = True"
| "is_fetch operation = False"

fun success_absent :: "('c, 's) operation \<Rightarrow> ('c, 's, 'p, 'm) event option" where
  "success_absent (Call_FetchPlayer_name name onSuccess onError) =
     Some (OnSuccessPlayer onSuccess None)"
| "success_absent (Call_FetchPlayer_steamID steamID onSuccess onError) =
     Some (OnSuccessPlayer onSuccess None)"
| "success_absent (Call_FetchMap_name name onSuccess onError) =
     Some (OnSuccessMap onSuccess None)"
| "success_absent (Call_FetchMap_id i onSuccess onError) =
     Some (OnSuccessMap onSuccess None)"
| "success_absent operation = None"

fun error_callback :: "('c, 's) operation \<Rightarrow> Error \<Rightarrow> ('c, 's, 'p, 'm) event" where
  "error_callback (Call_FetchPlayer_name name onSuccess onError) error = OnError onError error"
| "error_callback (Call_FetchPlayer_steamID steamID onSuccess onError) error = OnError onError error"
| "error_callback (Call_RegisterPlayer player onError) error = OnError onError error"
| "error_callback (Call_UpdatePlayer player onError) error = OnResult onError (Some error)"
| "error_callback (Call_FetchMap_name name onSuccess onError) error = OnError onError error"
| "error_callback (Call_FetchMap_id i onSuccess onError) error = OnError onError error"

text \<open>
  A body that is JSON and does not decode into the resource type of a Fetch operation,
  and a body that is not JSON.
\<close>

fun decode_fails :: "('j, 'p, 'm, 's) codec \<Rightarrow> ('c, 's) operation \<Rightarrow> string \<Rightarrow> bool" where
  "decode_fails cd (Call_FetchPlayer_name name onSuccess onError) b =
     (case json_parse cd b of None \<Rightarrow> False | Some json \<Rightarrow> isl (Player_Deserialize cd json))"
| "decode_fails cd (Call_FetchPlayer_steamID steamID onSuccess onError) b =
     (case json_parse cd b of None \<Rightarrow> False | Some json \<Rightarrow> isl (Player_Deserialize cd json))"
| "decode_fails cd (Call_FetchMap_name name onSuccess onError) b =
     (case json_parse cd b of None \<Rightarrow> False | Some json \<Rightarrow> isl (Map_Deserialize cd json))"
| "decode_fails cd (Call_FetchMap_id i onSuccess onError) b =
     (case json_parse cd b of None \<Rightarrow> False | Some json \<Rightarrow> isl (Map_Deserialize cd json))"
| "decode_fails cd operation b = False"

definition unparseable :: "('j, 'p, 'm, 's) codec \<Rightarrow> string \<Rightarrow> bool" where
  "unparseable cd b = (json_parse cd b = None)"

section \<open>Concrete inputs\<close>

text \<open>
  A small codec (a text that starts with \<open><\<close> is not JSON, any other text is its own
  value, a resource is its own text, and \<open>{}\<close> does not decode into a resource), a
  player, and three states of the service: not healthy, healthy without an access
  token, and healthy with the token \<open>tok123\<close>.
\<close>

definition codec0 :: "(string, string, string, unit) codec" where
  "codec0 = \<lparr>json_parse = (\<lambda>s. if take 1 s = ''<'' then None else Some s),
     Player_Deserialize = (\<lambda>j. if j = ''{}'' then Inl ''missing field'' else Inr j),
     Map_Deserialize = (\<lambda>j. if j = ''{}'' then Inl ''missing field'' else Inr j),
     Player_name = (\<lambda>p. p),
     access_key = (\<lambda>j. if j = ''{}'' then None else Some j),
     auth_payload = (\<lambda>k. ''refresh_key='' @ k),
     NewPlayer_dump = (\<lambda>n i a. n @ ''@'' @ a),
     PlayerUpdate_dump = (\<lambda>n a s. n @ ''@'' @ a),
     details_is_null = (\<lambda>e. True)\<rparr>"

definition player0 :: "unit KZPlayer" where
  "player0 = \<lparr>GetName = ''alice'', GetSteamId64 = 76561197960265729,
     GetIpAddress = ''127.0.0.1'', session = ()\<rparr>"

definition unhealthy0 :: "string ServiceState" where
  "unhealthy0 = initial_state"

definition healthy0 :: "string ServiceState" where
  "healthy0 = initial_state\<lparr>isHealthy := True, authTimerInitialized := True\<rparr>"

definition global0 :: "string ServiceState" where
  "global0 = initial_state\<lparr>isHealthy := True, authTimerInitialized := True,
     apiKey := Some ''key'', authPayload := Some ''refresh_key=key'',
     apiToken := Some ''tok123''\<rparr>"

definition response0 :: "int \<Rightarrow> string option \<Rightarrow> Response" where
  "response0 s b = \<lparr>status = s, Body = b\<rparr>"

text \<open>
  A configuration that sets no option, and a run of it: the heartbeat runs, its request
  gets a \<open>200\<close> with a body, the Auth timer fires.
\<close>

definition no_options :: "string \<rightharpoonup> string" where
  "no_options = Map.empty"

definition inputs0 :: "(nat, unit) input list" where
  "inputs0 =
     [Tick HeartbeatTimer, Deliver HeartbeatResponse (response0 200 (Some ''ok'')), Tick AuthTimer]"

section \<open>Traces of callbacks\<close>

lemma callbacks_Nil [simp]: "callbacks [] = []"
  by (simp add: callbacks_def)

lemma callbacks_Cons:
  "callbacks (e # es) = (if is_callback e then e # callbacks es else callbacks es)"
  by (simp add: callbacks_def)

lemma callbacks_call_onError [simp]: "callbacks (call_onError onError e) = [OnError onError e]"
  by (cases onError) (simp_all add: callbacks_def)

lemma sent_requests_call_onError [simp]: "sent_requests (call_onError onError e) = []"
  by (cases onError) simp_all

lemma callbacks_call_onSuccess [simp]:
  "callbacks (call_onSuccess cd onSuccess info) = [OnSuccessPlayer onSuccess info]"
  by (cases onSuccess; cases info) (simp_all add: callbacks_def)

lemma sent_requests_call_onSuccess [simp]: "sent_requests (call_onSuccess cd onSuccess info) = []"
  by (cases onSuccess; cases info) simp_all

lemmas fetch_defs = FetchPlayer_name_def FetchPlayer_steamID_def FetchPlayerImpl_def
  FetchMap_name_def FetchMap_id_def FetchMapImpl_def IsHealthy_def

section \<open>The operation gate\<close>

text \<open>
  Claim C2. Whichever resource operation is called while \<open>isHealthy\<close> is false
  (\<^verbatim>\<open>FetchPlayer\<close> and \<^verbatim>\<open>FetchMap\<close> by either key, \<^verbatim>\<open>RegisterPlayer\<close>, \<^verbatim>\<open>UpdatePlayer\<close>),
  the call returns \<open>false\<close>, hands no request to the HTTP transport, and the one callback
  it calls, before it returns, is the error callback with the error
  \<open>{503, "unreachable"}\<close>.
\<close>

theorem unhealthy_gate:
  assumes "\<not> isHealthy st"
  shows "fst (call cd st operation) = Returned False
    \<and> sent_requests (snd (call cd st operation)) = []
    \<and> callbacks (snd (call cd st operation)) =
        [error_callback operation (Error 503 ''unreachable'')]"
proof (cases operation)
  case (Call_RegisterPlayer player onError)
  with assms show ?thesis by (simp add: RegisterPlayer_def IsHealthy_def callbacks_Cons)
next
  case (Call_UpdatePlayer player onError)
  with assms show ?thesis by (simp add: UpdatePlayer_def IsHealthy_def callbacks_Cons)
qed (use assms in \<open>simp_all add: fetch_defs callbacks_Cons\<close>)

theorem unhealthy_gate_witness:
  "\<not> isHealthy unhealthy0
    \<and> fst (call codec0 unhealthy0 (Call_UpdatePlayer player0 (0::nat))) = Returned False
    \<and> sent_requests (snd (call codec0 unhealthy0 (Call_UpdatePlayer player0 (0::nat)))
          :: (nat, unit, string, string) trace) = []
    \<and> callbacks (snd (call codec0 unhealthy0 (Call_UpdatePlayer player0 (0::nat)))
          :: (nat, unit, string, string) trace) =
        [OnResult 0 (Some (Error 503 ''unreachable''))]"
  using unhealthy_gate [of unhealthy0 codec0 "Call_UpdatePlayer player0 (0::nat)"]
  by (simp add: unhealthy0_def initial_state_def)

section \<open>Responses to a Fetch operation\<close>

text \<open>
  Claim C1. A Fetch operation (\<^verbatim>\<open>FetchPlayer\<close> by name or steamID, \<^verbatim>\<open>FetchMap\<close> by name
  or id) called while the service is healthy returns \<open>true\<close> and sends one request.
  Whatever the state is when the response arrives: on status \<open>404\<close> the only callback
  called is the success callback, with an absent value (so the error callback is not
  called); on a status among 400, 401, 403, 429, 500, 502 and 503 the only callback
  called is the error callback, with an error whose status is the status of the response.
\<close>

theorem fetch_not_found_and_errors:
  assumes "isHealthy st" and "is_fetch operation"
  shows "\<exists>request h absent.
      call cd st operation = (Returned True, [Send request h])
    \<and> success_absent operation = Some absent
    \<and> (\<forall>st' response.
         (status response = 404 \<longrightarrow>
            fst (deliver cd st' h response) = st'
          \<and> callbacks (snd (deliver cd st' h response)) = [absent])
       \<and> (status response \<in> {400, 401, 403, 429, 500, 502, 503} \<longrightarrow>
            fst (deliver cd st' h response) = st'
          \<and> callbacks (snd (deliver cd st' h response)) =
              [error_callback operation
                 (Error (status response) (Body_value_or_empty response))]
          \<and> error_status (Error (status response) (Body_value_or_empty response)) =
              status response))"
proof (cases operation)
  case (Call_FetchPlayer_name name onSuccess onError)
  with assms(1) show ?thesis
    by (auto simp add: fetch_defs FetchPlayerImpl_callback_def)
next
  case (Call_FetchPlayer_steamID steamID onSuccess onError)
  with assms(1) show ?thesis
    by (auto simp add: fetch_defs FetchPlayerImpl_callback_def)
next
  case (Call_FetchMap_name name onSuccess onError)
  with assms(1) show ?thesis
    by (auto simp add: fetch_defs FetchMapImpl_callback_def callbacks_Cons)
next
  case (Call_FetchMap_id i onSuccess onError)
  with assms(1) show ?thesis
    by (auto simp add: fetch_defs FetchMapImpl_callback_def callbacks_Cons)
qed (use assms(2) in simp_all)

theorem fetch_not_found_and_errors_witness:
  "isHealthy healthy0
   \<and> is_fetch (Call_FetchPlayer_name ''alice'' (PlayerCallback (1::nat)) (ErrorCallback 2)
        :: (nat, unit) operation)
   \<and> callbacks (snd (deliver codec0 unhealthy0
        (FetchPlayerResponse (PlayerCallback (1::nat)) (ErrorCallback 2)) (response0 404 None))) =
       [OnSuccessPlayer (PlayerCallback 1) None]
   \<and> callbacks (snd (deliver codec0 unhealthy0
        (FetchPlayerResponse (PlayerCallback (1::nat)) (ErrorCallback 2))
        (response0 429 (Some ''slow down'')))) =
       [OnError (ErrorCallback 2) (Error 429 ''slow down'')]"
proof -
  let ?op = "Call_FetchPlayer_name ''alice'' (PlayerCallback (1::nat)) (ErrorCallback 2)
    :: (nat, unit) operation"
  have healthy: "isHealthy healthy0"
    by (simp add: healthy0_def)
  have fetch: "is_fetch ?op"
    by simp
  from fetch_not_found_and_errors [OF healthy fetch, of codec0]
  obtain request h absent where
    sent: "call codec0 healthy0 ?op =
      (Returned True, [Send request h :: (nat, unit, string, string) event])" and
    absent: "success_absent ?op = Some (absent :: (nat, unit, string, string) event)" and
    responses: "\<And>st' response.
       (status response = 404 \<longrightarrow>
          fst (deliver codec0 st' h response) = st'
        \<and> callbacks (snd (deliver codec0 st' h response)) = [absent])
     \<and> (status response \<in> {400, 401, 403, 429, 500, 502, 503} \<longrightarrow>
          fst (deliver codec0 st' h response) = st'
        \<and> callbacks (snd (deliver codec0 st' h response)) =
            [error_callback ?op (Error (status response) (Body_value_or_empty response))]
        \<and> error_status (Error (status response) (Body_value_or_empty response)) =
            status response)"
    by blast
  from sent healthy have h: "h = FetchPlayerResponse (PlayerCallback 1) (ErrorCallback 2)"
    by (simp add: fetch_defs)
  from absent have a: "absent = OnSuccessPlayer (PlayerCallback 1) None"
    by simp
  from responses [of "response0 404 None" unhealthy0]
    responses [of "response0 429 (Some ''slow down'')" unhealthy0]
  show ?thesis
    using healthy fetch by (simp add: h a response0_def Body_value_or_empty_def)
qed

text \<open>
  For the same operations, a transport failure (status \<open>0\<close>), a \<open>200\<close> without a body,
  and a \<open>200\<close> whose body is JSON and does not decode into the resource leave the state as
  it is, print to the log, and call no callback at all.
\<close>

lemma fetch_silent_failures:
  assumes "isHealthy st" and "is_fetch operation"
  shows "\<exists>request h.
      call cd st operation = (Returned True, [Send request h])
    \<and> (\<forall>st' response.
         (status response = 0
          \<or> status response = 200 \<and> Body response = None
          \<or> status response = 200
             \<and> (\<exists>b. Body response = Some b \<and> decode_fails cd operation b)) \<longrightarrow>
            fst (deliver cd st' h response) = st'
          \<and> snd (deliver cd st' h response) \<noteq> []
          \<and> list_all is_log (snd (deliver cd st' h response))
          \<and> callbacks (snd (deliver cd st' h response)) = [])"
proof (cases operation)
  case (Call_FetchPlayer_name name onSuccess onError)
  with assms(1) show ?thesis
    by (auto simp add: fetch_defs FetchPlayerImpl_callback_def callbacks_Cons isl_def
        split: option.splits)
next
  case (Call_FetchPlayer_steamID steamID onSuccess onError)
  with assms(1) show ?thesis
    by (auto simp add: fetch_defs FetchPlayerImpl_callback_def callbacks_Cons isl_def
        split: option.splits)
next
  case (Call_FetchMap_name name onSuccess onError)
  with assms(1) show ?thesis
    by (auto simp add: fetch_defs FetchMapImpl_callback_def callbacks_Cons isl_def
        split: option.splits)
next
  case (Call_FetchMap_id i onSuccess onError)
  with assms(1) show ?thesis
    by (auto simp add: fetch_defs FetchMapImpl_callback_def callbacks_Cons isl_def
        split: option.splits)
qed (use assms(2) in simp_all)

text \<open>
  A \<open>200\<close> whose body is not JSON: \<^verbatim>\<open>json::parse\<close> throws at line 204 or 400, before
  anything is printed. The lambda calls no callback and prints nothing.
\<close>

lemma fetch_unparseable:
  assumes "status response = 200" and "Body response = Some b" and "unparseable cd b"
  shows "FetchPlayerImpl_callback cd onSuccess onError response = (Threw parse_error, [])"
    and "FetchMapImpl_callback cd onSuccess' onError response = (Threw parse_error, [])"
  using assms
  by (simp_all add: FetchPlayerImpl_callback_def FetchMapImpl_callback_def unparseable_def)

text \<open>
  Claim C8. After a Fetch operation whose gate passes, a transport failure, a \<open>200\<close>
  without a body and a \<open>200\<close> with a body that does not decode are only logged, and no
  callback is called. For a body that is not JSON the code calls no callback, but it
  logs nothing either: the lambdas of \<^verbatim>\<open>FetchPlayerImpl\<close> and \<^verbatim>\<open>FetchMapImpl\<close> throw.
\<close>

theorem fetch_unparseable_body_throws:
  "isHealthy healthy0 \<and> unparseable codec0 ''<html>''
   \<and> (FetchPlayer_name healthy0 ''alice'' (PlayerCallback (1::nat)) (ErrorCallback 2)
        :: bool \<times> (nat, unit, string, string) trace) =
       (True, [Send (HTTP_Request GET ''https://api.cs2kz.org/players/alice'')
                 (FetchPlayerResponse (PlayerCallback 1) (ErrorCallback 2))])
   \<and> (FetchPlayerImpl_callback codec0 (PlayerCallback (1::nat)) (ErrorCallback 2)
         (response0 200 (Some ''<html>''))
        :: unit result \<times> (nat, unit, string, string) trace) = (Threw parse_error, [])
   \<and> (FetchMapImpl_callback codec0 (1::nat) (ErrorCallback 2)
         (response0 200 (Some ''<html>''))
        :: unit result \<times> (nat, unit, string, string) trace) = (Threw parse_error, [])"
  by (simp add: healthy0_def initial_state_def unparseable_def codec0_def response0_def
      fetch_defs FetchPlayerImpl_callback_def FetchMapImpl_callback_def HTTP_Request_def)

section \<open>Responses to RegisterPlayer and UpdatePlayer\<close>

text \<open>
  Claim C6. \<^verbatim>\<open>RegisterPlayer\<close> called while the service is healthy and holds an access token
  returns \<open>true\<close> and sends one request. On a \<open>201\<close> response its callback does what one
  call of \<^verbatim>\<open>FetchPlayer\<close> with the player's steamID and the two lambdas does, and nothing
  else: while the service is healthy that is one \<^verbatim>\<open>GET\<close> of \<^verbatim>\<open><base>/players/<steamID>\<close>.
  On any status other than \<open>0\<close> and \<open>201\<close> it calls the error callback with the error built
  from the response, and sends no request.
\<close>

theorem RegisterPlayer_response:
  assumes "isHealthy st" and "apiToken st = Some token"
  shows "\<exists>request.
      RegisterPlayer cd st player onError =
        (Returned True, [Send request (RegisterPlayerResponse player onError)])
    \<and> (\<forall>st' response.
         (status response = 201 \<longrightarrow>
            deliver cd st' (RegisterPlayerResponse player onError) response =
              (st', snd (FetchPlayer_steamID st' (GetSteamId64 player)
                           (RegisterOnSuccess player) (RegisterOnError player)))
          \<and> (isHealthy st' \<longrightarrow>
               sent_requests (snd (deliver cd st' (RegisterPlayerResponse player onError) response
                  :: 'm ServiceState \<times> ('c, 's, 'p, 'm) trace)) =
                 [HTTP_Request GET
                    (apiURL st' @ ''/players/'' @ decimal (unat (GetSteamId64 player)))]))
       \<and> (status response \<noteq> 0 \<and> status response \<noteq> 201 \<longrightarrow>
            deliver cd st' (RegisterPlayerResponse player onError) response =
              (st', call_onError onError
                      (Error (status response) (Body_value_or_empty response)))
          \<and> callbacks (snd (deliver cd st' (RegisterPlayerResponse player onError) response
                :: 'm ServiceState \<times> ('c, 's, 'p, 'm) trace)) =
              [OnError onError (Error (status response) (Body_value_or_empty response))]
          \<and> sent_requests (snd (deliver cd st' (RegisterPlayerResponse player onError) response
                :: 'm ServiceState \<times> ('c, 's, 'p, 'm) trace)) = []))"
  using assms
  by (simp add: RegisterPlayer_def IsHealthy_def IsAuthenticated_def
      RegisterPlayer_callback_def FetchPlayer_steamID_def FetchPlayerImpl_def)

theorem RegisterPlayer_response_witness:
  "isHealthy global0 \<and> apiToken global0 = Some ''tok123''
   \<and> sent_requests (snd (deliver codec0 global0
        (RegisterPlayerResponse player0 (ErrorCallback (2::nat))) (response0 201 None)
        :: string ServiceState \<times> (nat, unit, string, string) trace)) =
       [HTTP_Request GET ''https://api.cs2kz.org/players/76561197960265729'']
   \<and> callbacks (snd (deliver codec0 global0
        (RegisterPlayerResponse player0 (ErrorCallback (2::nat))) (response0 409 (Some ''exists''))
        :: string ServiceState \<times> (nat, unit, string, string) trace)) =
       [OnError (ErrorCallback 2) (Error 409 ''exists'')]
   \<and> sent_requests (snd (deliver codec0 global0
        (RegisterPlayerResponse player0 (ErrorCallback (2::nat))) (response0 409 (Some ''exists''))
        :: string ServiceState \<times> (nat, unit, string, string) trace)) = []"
proof -
  have healthy: "isHealthy global0" and token: "apiToken global0 = Some ''tok123''"
    by (simp_all add: global0_def)
  have url: "apiURL global0 @ ''/players/'' @ decimal (unat (GetSteamId64 player0)) =
      ''https://api.cs2kz.org/players/76561197960265729''"
    by (simp add: global0_def initial_state_def player0_def decimal.simps digit_def)
  from RegisterPlayer_response [OF healthy token, of codec0 player0 "ErrorCallback (2::nat)"]
  have responses: "\<And>st' response.
      (status response = 201 \<longrightarrow>
         (isHealthy st' \<longrightarrow>
            sent_requests (snd (deliver codec0 st'
               (RegisterPlayerResponse player0 (ErrorCallback (2::nat))) response
               :: string ServiceState \<times> (nat, unit, string, string) trace)) =
              [HTTP_Request GET
                 (apiURL st' @ ''/players/'' @ decimal (unat (GetSteamId64 player0)))]))
    \<and> (status response \<noteq> 0 \<and> status response \<noteq> 201 \<longrightarrow>
         callbacks (snd (deliver codec0 st'
            (RegisterPlayerResponse player0 (ErrorCallback (2::nat))) response
            :: string ServiceState \<times> (nat, unit, string, string) trace)) =
           [OnError (ErrorCallback 2) (Error (status response) (Body_value_or_empty response))]
       \<and> sent_requests (snd (deliver codec0 st'
            (RegisterPlayerResponse player0 (ErrorCallback (2::nat))) response
            :: string ServiceState \<times> (nat, unit, string, string) trace)) = [])"
    by blast
  from responses [of "response0 201 None" global0]
    responses [of "response0 409 (Some ''exists'')" global0]
  show ?thesis
    using healthy token url by (simp add: response0_def Body_value_or_empty_def)
qed

text \<open>
  Claim C7. \<^verbatim>\<open>UpdatePlayer\<close> called while the service is healthy and holds an access token
  returns \<open>true\<close> and sends one request. Its callback calls the result callback with an
  absent error on \<open>204\<close>, with the error built from the response on any status other than
  \<open>0\<close> and \<open>204\<close>, and on a transport failure (status \<open>0\<close>) it prints to the log and calls
  no callback.
\<close>

theorem UpdatePlayer_response:
  "(isHealthy st \<and> apiToken st = Some token \<longrightarrow>
      (\<exists>request. UpdatePlayer cd st player onError =
         (Returned True,
          [Log ''[KZ::Global] updating player at `%s` with `%s`'',
           Send request (UpdatePlayerResponse player onError)])))
   \<and> (status response = 204 \<longrightarrow>
        deliver cd st' (UpdatePlayerResponse player onError) response =
          (st', [OnResult onError None]))
   \<and> (status response \<noteq> 0 \<and> status response \<noteq> 204 \<longrightarrow>
        deliver cd st' (UpdatePlayerResponse player onError) response =
          (st', [OnResult onError
                   (Some (Error (status response) (Body_value_or_empty response)))]))
   \<and> (status response = 0 \<longrightarrow>
        fst (deliver cd st' (UpdatePlayerResponse player onError) response
          :: 'm ServiceState \<times> ('c, 's, 'p, 'm) trace) = st'
      \<and> list_all is_log (snd (deliver cd st' (UpdatePlayerResponse player onError) response
          :: 'm ServiceState \<times> ('c, 's, 'p, 'm) trace))
      \<and> callbacks (snd (deliver cd st' (UpdatePlayerResponse player onError) response
          :: 'm ServiceState \<times> ('c, 's, 'p, 'm) trace)) = [])"
  by (simp add: UpdatePlayer_def IsHealthy_def UpdatePlayer_callback_def callbacks_Cons)

theorem UpdatePlayer_response_witness:
  "isHealthy global0 \<and> apiToken global0 = Some ''tok123''
   \<and> fst (UpdatePlayer codec0 global0 player0 (3::nat)
        :: bool result \<times> (nat, unit, string, string) trace) = Returned True
   \<and> (deliver codec0 global0 (UpdatePlayerResponse player0 (3::nat)) (response0 204 None)
        :: string ServiceState \<times> (nat, unit, string, string) trace) =
       (global0, [OnResult 3 None])
   \<and> (deliver codec0 global0 (UpdatePlayerResponse player0 (3::nat))
         (response0 500 (Some ''boom''))
        :: string ServiceState \<times> (nat, unit, string, string) trace) =
       (global0, [OnResult 3 (Some (Error 500 ''boom''))])
   \<and> callbacks (snd (deliver codec0 global0 (UpdatePlayerResponse player0 (3::nat))
         (response0 0 None)
        :: string ServiceState \<times> (nat, unit, string, string) trace)) = []"
proof -
  have healthy: "isHealthy global0" and token: "apiToken global0 = Some ''tok123''"
    by (simp_all add: global0_def)
  note inst = UpdatePlayer_response [where st = global0 and token = "''tok123''"
      and cd = codec0 and player = player0 and onError = "3::nat" and st' = global0]
  from inst [of "response0 204 None"] healthy token
  have "fst (UpdatePlayer codec0 global0 player0 (3::nat)
      :: bool result \<times> (nat, unit, string, string) trace) = Returned True"
    by auto
  moreover from inst [of "response0 204 None"]
  have "(deliver codec0 global0 (UpdatePlayerResponse player0 (3::nat)) (response0 204 None)
      :: string ServiceState \<times> (nat, unit, string, string) trace) =
      (global0, [OnResult 3 None])"
    by (simp add: response0_def)
  moreover from inst [of "response0 500 (Some ''boom'')"]
  have "(deliver codec0 global0 (UpdatePlayerResponse player0 (3::nat))
       (response0 500 (Some ''boom''))
      :: string ServiceState \<times> (nat, unit, string, string) trace) =
      (global0, [OnResult 3 (Some (Error 500 ''boom''))])"
    by (simp add: response0_def Body_value_or_empty_def)
  moreover from inst [of "response0 0 None"]
  have "callbacks (snd (deliver codec0 global0 (UpdatePlayerResponse player0 (3::nat))
       (response0 0 None)
      :: string ServiceState \<times> (nat, unit, string, string) trace)) = []"
    by (simp add: response0_def)
  ultimately show ?thesis
    using healthy token by blast
qed

section \<open>The health flag\<close>

text \<open>
  Only the Heartbeat callback writes \<open>isHealthy\<close>: every other input of a run leaves it as
  it is.
\<close>

lemma isHealthy_Heartbeat_callback:
  "isHealthy (fst (Heartbeat_callback st response)) = healthy_response response"
  by (simp add: Heartbeat_callback_def healthy_response_def split: option.split)

lemma isHealthy_Auth: "isHealthy (fst (Auth cd st)) = isHealthy st"
  by (simp add: Auth_def Let_def split: option.split)

lemma isHealthy_Auth_callback: "isHealthy (fst (Auth_callback cd st response)) = isHealthy st"
  by (simp add: Auth_callback_def Let_def split: option.split)

lemma isHealthy_deliver:
  "isHealthy (fst (deliver cd st h response)) =
     (case h of HeartbeatResponse \<Rightarrow> healthy_response response | _ \<Rightarrow> isHealthy st)"
  using isHealthy_Auth_callback [of cd st response]
  by (cases h) (simp_all add: isHealthy_Heartbeat_callback split_beta)

lemma isHealthy_step:
  "isHealthy (fst (step cd st i)) =
     (case i of Deliver HeartbeatResponse response \<Rightarrow> healthy_response response
      | _ \<Rightarrow> isHealthy st)"
proof (cases i)
  case (Tick t)
  then show ?thesis
    using isHealthy_Auth [of cd st]
    by (cases t) (simp_all add: split_beta)
next
  case (Deliver h response)
  then show ?thesis
    by (simp add: isHealthy_deliver)
next
  case (Call operation)
  then show ?thesis by simp
qed

text \<open>
  Claim C4. At every point of a run, \<open>isHealthy\<close> is the classification of the most recent
  Heartbeat response delivered so far (its value before the run if there was none): true
  if and only if that response had status \<open>200\<close> and a body, false for a transport failure
  (status \<open>0\<close>), for any other status, and for a \<open>200\<close> without a body. In particular this
  holds right after each Heartbeat callback.
\<close>

theorem isHealthy_most_recent_heartbeat:
  "isHealthy (state_after cd st inputs) =
     (case last_heartbeat inputs of
        None \<Rightarrow> isHealthy st
      | Some response \<Rightarrow> healthy_response response)"
proof (induction inputs arbitrary: st)
  case Nil
  show ?case by simp
next
  case (Cons i inputs)
  show ?case
  proof (cases "last_heartbeat inputs")
    case None
    then show ?thesis
      using Cons.IH [of "fst (step cd st i)"]
      by (simp add: isHealthy_step split: input.split handler.split)
  next
    case (Some response)
    then show ?thesis
      using Cons.IH [of "fst (step cd st i)"] by simp
  qed
qed

section \<open>The start of the Auth timer\<close>

lemma auth_starts_append: "auth_starts (es @ fs) = auth_starts es + auth_starts fs"
  by (induction es rule: auth_starts.induct) simp_all

lemma auth_starts_call_onError [simp]: "auth_starts (call_onError onError e) = 0"
  by (cases onError) simp_all

lemma auth_starts_call_onSuccess [simp]: "auth_starts (call_onSuccess cd onSuccess info) = 0"
  by (cases onSuccess; cases info) simp_all

lemma auth_starts_call: "auth_starts (snd (call cd st operation)) = 0"
proof (cases operation)
  case (Call_RegisterPlayer player onError)
  then show ?thesis
    by (simp add: RegisterPlayer_def Let_def split: option.split)
next
  case (Call_UpdatePlayer player onError)
  then show ?thesis
    by (simp add: UpdatePlayer_def Let_def split: option.split)
qed (simp_all add: fetch_defs)

lemma auth_starts_FetchPlayerImpl_callback:
  "auth_starts (snd (FetchPlayerImpl_callback cd onSuccess onError response)) = 0"
  by (simp add: FetchPlayerImpl_callback_def split: option.split sum.split)

lemma auth_starts_FetchMapImpl_callback:
  "auth_starts (snd (FetchMapImpl_callback cd onSuccess onError response)) = 0"
  by (simp add: FetchMapImpl_callback_def split: option.split sum.split)

lemma auth_starts_RegisterPlayer_callback:
  "auth_starts (RegisterPlayer_callback st player onError response) = 0"
  by (simp add: RegisterPlayer_callback_def fetch_defs)

lemma auth_starts_UpdatePlayer_callback:
  "auth_starts (UpdatePlayer_callback onError response) = 0"
  by (simp add: UpdatePlayer_callback_def)

lemma auth_starts_Auth_callback: "auth_starts (snd (snd (Auth_callback cd st response))) = 0"
  by (simp add: Auth_callback_def Let_def split: option.split)

lemma auth_starts_Heartbeat_callback:
  "auth_starts (snd (Heartbeat_callback st response)) =
     (if healthy_response response \<and> \<not> authTimerInitialized st then 1 else 0)"
  by (simp add: Heartbeat_callback_def healthy_response_def split: option.split)

lemma auth_starts_step:
  "auth_starts (snd (step cd st i)) =
     (if healthy_heartbeat i \<and> \<not> authTimerInitialized st then 1 else 0)"
proof (cases i)
  case (Tick t)
  then show ?thesis
    by (cases t) (simp_all add: Heartbeat_def Auth_def Let_def split: option.split)
next
  case (Deliver h response)
  then show ?thesis
    by (cases h)
      (simp_all add: auth_starts_Heartbeat_callback auth_starts_Auth_callback
        auth_starts_FetchPlayerImpl_callback auth_starts_FetchMapImpl_callback
        auth_starts_RegisterPlayer_callback auth_starts_UpdatePlayer_callback split_beta)
next
  case (Call operation)
  then show ?thesis by (simp add: auth_starts_call)
qed

lemma authTimerInitialized_step:
  "authTimerInitialized (fst (step cd st i)) = (authTimerInitialized st \<or> healthy_heartbeat i)"
proof (cases i)
  case (Tick t)
  then show ?thesis
    by (cases t) (simp_all add: Auth_def Let_def split: option.split)
next
  case (Deliver h response)
  then show ?thesis
    by (cases h)
      (auto simp add: Heartbeat_callback_def Auth_callback_def healthy_response_def Let_def
        split: option.split)
next
  case (Call operation)
  then show ?thesis by simp
qed

lemma apiKey_step: "apiKey (fst (step cd st i)) = apiKey st"
proof (cases i)
  case (Tick t)
  then show ?thesis
    by (cases t) (simp_all add: Auth_def Let_def split: option.split)
next
  case (Deliver h response)
  then show ?thesis
    by (cases h)
      (simp_all add: Heartbeat_callback_def Auth_callback_def Let_def split: option.split)
next
  case (Call operation)
  then show ?thesis by simp
qed

lemma apiKey_state_after: "apiKey (state_after cd st inputs) = apiKey st"
  by (induction inputs arbitrary: st) (simp_all add: apiKey_step)

lemma auth_starts_run:
  "auth_starts (concat (map snd (run cd st inputs))) \<le> (if authTimerInitialized st then 0 else 1)"
proof (induction inputs arbitrary: st)
  case Nil
  show ?case by simp
next
  case (Cons i inputs)
  from Cons.IH [of "fst (step cd st i)"] show ?case
    by (simp add: auth_starts_append auth_starts_step authTimerInitialized_step
        split: if_splits)
qed

lemma auth_starts_run_only_heartbeat:
  "(i, es) \<in> set (run cd st inputs) \<Longrightarrow> 0 < auth_starts es \<Longrightarrow> healthy_heartbeat i"
proof (induction inputs arbitrary: st)
  case Nil
  then show ?case by simp
next
  case (Cons j inputs)
  from Cons.prems(1) consider "i = j" "es = snd (step cd st j)"
    | "(i, es) \<in> set (run cd (fst (step cd st j)) inputs)"
    by auto
  then show ?case
  proof cases
    case 1
    with Cons.prems(2) show ?thesis
      by (simp add: auth_starts_step split: if_splits)
  next
    case 2
    then show ?thesis using Cons.IH Cons.prems(2) by blast
  qed
qed

lemma auth_starts_Init: "auth_starts (snd (Init opts st)) = 0"
  by (simp add: Init_def Let_def)

lemma apiKey_Init:
  "GetOptionStr opts ''apiKey'' [] = [] \<Longrightarrow> apiKey (fst (Init opts st)) = apiKey st"
  by (simp add: Init_def Let_def)

text \<open>
  The first healthy heartbeat of a run finds \<open>authTimerInitialized\<close> false, whatever else
  has happened before, and starts the Auth timer; no later input does.
\<close>

lemma auth_starts_run_exact:
  "auth_starts (concat (map snd (run cd st inputs))) =
     (if \<not> authTimerInitialized st \<and> (\<exists>i \<in> set inputs. healthy_heartbeat i) then 1 else 0)"
proof (induction inputs arbitrary: st)
  case Nil
  show ?case by simp
next
  case (Cons i inputs)
  show ?case
    by (simp add: auth_starts_append auth_starts_step authTimerInitialized_step
        Cons.IH [of "fst (step cd st i)"])
qed

lemma authTimerInitialized_state_after:
  "authTimerInitialized (state_after cd st inputs) =
     (authTimerInitialized st \<or> (\<exists>i \<in> set inputs. healthy_heartbeat i))"
  by (induction inputs arbitrary: st) (auto simp add: authTimerInitialized_step)

lemma run_nth_append:
  "run cd st (pre @ i # post) ! length pre = (i, snd (step cd (state_after cd st pre) i))"
  by (induction pre arbitrary: st) simp_all

lemma first_healthy_heartbeat_step:
  assumes "healthy_heartbeat i" and "\<not> authTimerInitialized st"
  shows "snd (step cd st i) =
    [Log ''[KZ::Global] API is healthy %s'',
     Log ''[KZ::Global] Initializing auth flow...'',
     StartTimer AuthTimer]"
proof -
  from assms(1) obtain response where
    i: "i = Deliver HeartbeatResponse response" and healthy: "healthy_response response"
    by (cases i rule: healthy_heartbeat.cases) simp_all
  from healthy assms(2) show ?thesis
    by (auto simp add: i Heartbeat_callback_def healthy_response_def)
qed

lemma authTimerInitialized_Init:
  "authTimerInitialized (fst (Init opts st)) = authTimerInitialized st"
  by (simp add: Init_def Let_def)

text \<open>
  Claim C5, as the code has it. In every run of a process the Auth timer is started at
  most once, and only by a Heartbeat callback that observes a \<open>200\<close> response with a body.
  The API key is not consulted there: whatever the \<^verbatim>\<open>apiKey\<close> option is, also when it is
  empty, the timer is started exactly once if the run has such a callback and never if
  it has none, and it is the first such callback of the run that starts it. Where no
  API key was configured at \<^verbatim>\<open>Init\<close>, every run of \<^verbatim>\<open>Auth\<close> leaves the state as it is, sends
  no request, and returns \<^verbatim>\<open>-1.0\<close>, which stops the timer.
\<close>

theorem auth_timer_started_once:
  "auth_starts (process_trace cd opts inputs) =
     (if \<exists>i \<in> set inputs. healthy_heartbeat i then 1 else 0)
   \<and> (\<forall>(i, es) \<in> set (process cd opts inputs).
        0 < auth_starts es \<longrightarrow> healthy_heartbeat i)
   \<and> (\<forall>pre i post.
        inputs = pre @ i # post \<and> healthy_heartbeat i
        \<and> (\<forall>j \<in> set pre. \<not> healthy_heartbeat j) \<longrightarrow>
          process cd opts inputs ! length pre =
            (i, [Log ''[KZ::Global] API is healthy %s'',
                 Log ''[KZ::Global] Initializing auth flow...'',
                 StartTimer AuthTimer]))
   \<and> (GetOptionStr opts ''apiKey'' [] = [] \<longrightarrow>
        Auth cd (process_state cd opts inputs) =
          (process_state cd opts inputs, MinusOne,
           [Log ''[KZ::Global] No API key found, can't authenticate.''
              :: ('c, 's, 'p, 'm) event]))"
  for cd :: "('j, 'p, 'm, 's) codec" and inputs :: "('c, 's) input list"
proof (intro conjI)
  show "auth_starts (process_trace cd opts inputs) =
      (if \<exists>i \<in> set inputs. healthy_heartbeat i then 1 else 0)"
    unfolding process_trace_def process_def auth_starts_append auth_starts_Init
      auth_starts_run_exact
    by (simp add: authTimerInitialized_Init initial_state_def)
next
  show "\<forall>(i, es) \<in> set (process cd opts inputs).
      0 < auth_starts es \<longrightarrow> healthy_heartbeat i"
    unfolding process_def by (auto dest: auth_starts_run_only_heartbeat)
next
  show "\<forall>pre i post.
      inputs = pre @ i # post \<and> healthy_heartbeat i
      \<and> (\<forall>j \<in> set pre. \<not> healthy_heartbeat j) \<longrightarrow>
        process cd opts inputs ! length pre =
          (i, [Log ''[KZ::Global] API is healthy %s'',
               Log ''[KZ::Global] Initializing auth flow...'',
               StartTimer AuthTimer])"
  proof (intro allI impI, elim conjE)
    fix pre :: "('c, 's) input list" and i post
    assume inputs: "inputs = pre @ i # post" and healthy: "healthy_heartbeat i"
      and first: "\<forall>j \<in> set pre. \<not> healthy_heartbeat j"
    let ?st = "fst (Init opts initial_state :: 'm ServiceState \<times> ('c, 's, 'p, 'm) trace)"
    from first have "\<not> authTimerInitialized (state_after cd ?st pre)"
      by (simp add: authTimerInitialized_state_after authTimerInitialized_Init
          initial_state_def)
    with healthy show "process cd opts inputs ! length pre =
        (i, [Log ''[KZ::Global] API is healthy %s'',
             Log ''[KZ::Global] Initializing auth flow...'',
             StartTimer AuthTimer])"
      unfolding process_def inputs run_nth_append
      by (simp add: first_healthy_heartbeat_step)
  qed
next
  show "GetOptionStr opts ''apiKey'' [] = [] \<longrightarrow>
      Auth cd (process_state cd opts inputs) =
        (process_state cd opts inputs, MinusOne,
         [Log ''[KZ::Global] No API key found, can't authenticate.''
            :: ('c, 's, 'p, 'm) event])"
  proof
    assume "GetOptionStr opts ''apiKey'' [] = []"
    then have "apiKey (process_state cd opts inputs) = None"
      unfolding process_state_def
      by (simp add: apiKey_state_after apiKey_Init initial_state_def)
    then show "Auth cd (process_state cd opts inputs) =
        (process_state cd opts inputs, MinusOne,
         [Log ''[KZ::Global] No API key found, can't authenticate.''
            :: ('c, 's, 'p, 'm) event])"
      by (simp add: Auth_def)
  qed
qed

theorem auth_timer_started_once_witness:
  "GetOptionStr no_options ''apiKey'' [] = []
   \<and> inputs0 =
       [Tick HeartbeatTimer] @ Deliver HeartbeatResponse (response0 200 (Some ''ok''))
         # [Tick AuthTimer]
   \<and> healthy_heartbeat (Deliver HeartbeatResponse (response0 200 (Some ''ok''))
         :: (nat, unit) input)
   \<and> \<not> healthy_heartbeat (Tick HeartbeatTimer :: (nat, unit) input)
   \<and> auth_starts (process_trace codec0 no_options inputs0
         :: (nat, unit, string, string) trace) = 1
   \<and> process codec0 no_options inputs0 ! 1 =
       (Deliver HeartbeatResponse (response0 200 (Some ''ok'')),
        [Log ''[KZ::Global] API is healthy %s'',
         Log ''[KZ::Global] Initializing auth flow...'',
         StartTimer AuthTimer :: (nat, unit, string, string) event])
   \<and> (Deliver HeartbeatResponse (response0 200 (Some ''ok'')),
        [Log ''[KZ::Global] API is healthy %s'',
         Log ''[KZ::Global] Initializing auth flow...'',
         StartTimer AuthTimer :: (nat, unit, string, string) event])
       \<in> set (process codec0 no_options inputs0)
   \<and> fst (snd (Auth codec0 (process_state codec0 no_options inputs0 :: string ServiceState)
         :: string ServiceState \<times> delay \<times> (nat, unit, string, string) trace)) = MinusOne"
proof -
  let ?i = "Deliver HeartbeatResponse (response0 200 (Some ''ok'')) :: (nat, unit) input"
  let ?es = "[Log ''[KZ::Global] API is healthy %s'',
    Log ''[KZ::Global] Initializing auth flow...'',
    StartTimer AuthTimer :: (nat, unit, string, string) event]"
  have no_key: "GetOptionStr no_options ''apiKey'' [] = []"
    by (simp add: no_options_def GetOptionStr_def)
  have split: "inputs0 = [Tick HeartbeatTimer] @ ?i # [Tick AuthTimer]"
    by (simp add: inputs0_def)
  have healthy: "healthy_heartbeat ?i"
    by (simp add: healthy_response_def response0_def)
  have first: "\<not> healthy_heartbeat (Tick HeartbeatTimer :: (nat, unit) input)"
    by simp
  have some: "\<exists>i \<in> set inputs0. healthy_heartbeat i"
    using healthy by (auto simp add: inputs0_def)
  note once = auth_timer_started_once [of codec0 no_options inputs0]
  from once some have "auth_starts (process_trace codec0 no_options inputs0
      :: (nat, unit, string, string) trace) = 1"
    by simp
  moreover from once have "inputs0 = [Tick HeartbeatTimer] @ ?i # [Tick AuthTimer]
      \<and> healthy_heartbeat ?i
      \<and> (\<forall>j \<in> set [Tick HeartbeatTimer :: (nat, unit) input]. \<not> healthy_heartbeat j) \<longrightarrow>
      process codec0 no_options inputs0 ! length [Tick HeartbeatTimer :: (nat, unit) input] =
        (?i, ?es)"
    by blast
  with split healthy have nth: "process codec0 no_options inputs0 ! 1 = (?i, ?es)"
    by simp
  have "length (process codec0 no_options inputs0
      :: ((nat, unit) input \<times> (nat, unit, string, string) trace) list) = 3"
    by (simp add: process_def inputs0_def)
  then have "process codec0 no_options inputs0 ! 1 \<in> set (process codec0 no_options inputs0
      :: ((nat, unit) input \<times> (nat, unit, string, string) trace) list)"
    by (intro nth_mem) simp
  with nth have "(?i, ?es) \<in> set (process codec0 no_options inputs0)"
    by simp
  moreover note nth
  moreover from once no_key
  have "fst (snd (Auth codec0 (process_state codec0 no_options inputs0 :: string ServiceState)
      :: string ServiceState \<times> delay \<times> (nat, unit, string, string) trace)) = MinusOne"
    by simp
  ultimately show ?thesis
    using no_key split healthy first by blast
qed

text \<open>
  Claim C5 as stated says that the Auth timer is never started when no API key was
  configured. With no option set, the first healthy heartbeat starts it.
\<close>

theorem auth_timer_started_without_key:
  "GetOptionStr no_options ''apiKey'' [] = []
   \<and> process codec0 no_options (take 2 inputs0) =
       [(Tick HeartbeatTimer,
         [Send (HTTP_Request GET ''https://api.cs2kz.org'') HeartbeatResponse]),
        (Deliver HeartbeatResponse (response0 200 (Some ''ok'')),
         [Log ''[KZ::Global] API is healthy %s'',
          Log ''[KZ::Global] Initializing auth flow...'',
          StartTimer AuthTimer :: (nat, unit, string, string) event])]
   \<and> auth_starts (process_trace codec0 no_options (take 2 inputs0)
         :: (nat, unit, string, string) trace) = 1"
  by (simp add: no_options_def GetOptionStr_def inputs0_def process_def process_trace_def
      Init_def initial_state_def Heartbeat_def Heartbeat_callback_def response0_def)

section \<open>UpdatePlayer without an access token\<close>

text \<open>
  Claim C3. An operation that requires authentication fails with \<open>{401, "server is not
  global"}\<close> when there is no access token. \<^verbatim>\<open>RegisterPlayer\<close> does so. \<^verbatim>\<open>UpdatePlayer\<close>,
  on a healthy service without a token, calls no callback and returns nothing: reading
  the absent token throws.
\<close>

theorem UpdatePlayer_without_token:
  "isHealthy healthy0 \<and> \<not> IsAuthenticated healthy0
   \<and> UpdatePlayer codec0 healthy0 player0 (3::nat) =
       (Threw bad_optional_access, ([] :: (nat, unit, string, string) trace))
   \<and> RegisterPlayer codec0 healthy0 player0 (ErrorCallback (3::nat)) =
       (Returned False,
        [Log ''[KZ::Global] Cannot register player (not authenticated with API).'',
         OnError (ErrorCallback 3) (Error 401 ''server is not global'')
           :: (nat, unit, string, string) event])"
  by (simp add: healthy0_def initial_state_def UpdatePlayer_def RegisterPlayer_def
      IsHealthy_def IsAuthenticated_def)

text \<open>
  Claim C9. \<^verbatim>\<open>UpdatePlayer\<close> called while the service is healthy and no access token has
  been set is said not to fail fast and to issue its request all the same, with a header
  built from the absent token. The code does not get that far: reading the absent token
  throws before \<^verbatim>\<open>request.Send\<close>, and no request is handed to the transport.
\<close>

theorem UpdatePlayer_sends_nothing_without_token:
  "isHealthy healthy0 \<and> apiToken healthy0 = None
   \<and> sent_requests (snd (UpdatePlayer codec0 healthy0 player0 (3::nat))
         :: (nat, unit, string, string) trace) = []"
  by (simp add: healthy0_def initial_state_def UpdatePlayer_def IsHealthy_def)

text \<open>
  In every other case an operation returns a boolean: \<open>true\<close> exactly when it has sent its
  one request, and \<open>false\<close> after one call of its error callback and no request.
\<close>

lemma call_returns_boolean:
  assumes "apiToken st \<noteq> None \<or> \<not> isHealthy st
    \<or> (\<forall>player onError. operation \<noteq> Call_UpdatePlayer player onError)"
  shows "\<exists>b. fst (call cd st operation) = Returned b
    \<and> (b \<longleftrightarrow> length (sent_requests (snd (call cd st operation))) = 1)
    \<and> (\<not> b \<longrightarrow> sent_requests (snd (call cd st operation)) = []
         \<and> (\<exists>error. callbacks (snd (call cd st operation)) =
               [error_callback operation error]))"
proof (cases operation)
  case (Call_RegisterPlayer player onError)
  then show ?thesis
    by (auto simp add: RegisterPlayer_def IsHealthy_def IsAuthenticated_def SetBody_def
        callbacks_Cons)
next
  case (Call_UpdatePlayer player onError)
  with assms show ?thesis
    by (auto simp add: UpdatePlayer_def IsHealthy_def callbacks_Cons)
qed (auto simp add: fetch_defs callbacks_Cons)

text \<open>
  Claim C10. Every public operation returns a boolean, and has called the error callback
  once when that boolean is \<open>false\<close>. \<^verbatim>\<open>UpdatePlayer\<close> on a healthy service without a token
  returns no boolean, calls no callback and sends no request.
\<close>

theorem UpdatePlayer_returns_no_boolean:
  "isHealthy healthy0
   \<and> fst (call codec0 healthy0 (Call_UpdatePlayer player0 (3::nat))
         :: bool result \<times> (nat, unit, string, string) trace) = Threw bad_optional_access
   \<and> callbacks (snd (call codec0 healthy0 (Call_UpdatePlayer player0 (3::nat)))
         :: (nat, unit, string, string) trace) = []
   \<and> sent_requests (snd (call codec0 healthy0 (Call_UpdatePlayer player0 (3::nat)))
         :: (nat, unit, string, string) trace) = []"
  by (simp add: healthy0_def initial_state_def UpdatePlayer_def IsHealthy_def)

end
